theory Spec2Isabelle
  imports Main
begin

section \<open>The file picker component (app/components/FileUploader1.tsx)\<close>

subsection \<open>Values\<close>

text \<open>
  A browser \<open>File\<close> object. The component reads \<open>name\<close> and \<open>size\<close>; the dropzone
  library reads \<open>type\<close> and \<open>size\<close>. JavaScript compares objects by reference
  (\<open>!==\<close> in the sync effect), so every object carries its identity \<open>ident\<close>: two
  records are equal exactly when they are the same object.
\<close>

record js_file =
  ident :: nat
  name :: string
  size_f :: nat
  type_f :: string

text \<open>
  The values that can stand where the source has \<open>File | null | undefined\<close>. The
  TypeScript annotations are erased at run time, and \<open>acceptedFiles[0]\<close> of an empty
  array is \<open>undefined\<close>, so all three are modelled in one type.
\<close>

datatype jsval = Undefined | Null | FileRef js_file

text \<open>JavaScript truthiness: \<open>undefined\<close> and \<open>null\<close> are falsy, every object is truthy.\<close>

fun truthy :: "jsval \<Rightarrow> bool" where
  "truthy Undefined = False"
| "truthy Null = False"
| "truthy (FileRef f) = True"

text \<open>\<open>a || b\<close>: the left operand when it is truthy, the right one otherwise.\<close>

definition js_or :: "jsval \<Rightarrow> jsval \<Rightarrow> jsval" where
  "js_or a b = (if truthy a then a else b)"

text \<open>\<open>xs[i]\<close> on a JavaScript array: \<open>undefined\<close> out of range, no exception.\<close>

definition array_get :: "js_file list \<Rightarrow> nat \<Rightarrow> jsval" where
  "array_get xs i = (if i < length xs then FileRef (xs ! i) else Undefined)"

subsection \<open>State and effects\<close>

text \<open>The \<open>React.MouseEvent\<close> handed to the remove handler, with the two flags it sets.\<close>

record mouse_event =
  propagationStopped :: bool
  defaultPrevented :: bool

text \<open>What a handler does that can be observed from outside, in program order.\<close>

datatype effect =
    StopPropagation
  | PreventDefault
  | ConsoleLog string
  | SetDisplayFile jsval
  | OnFileSelect jsval

text \<open>
  \<open>displayFile\<close> is the \<open>useState\<close> cell of line 15, the only state of the component;
  \<open>parent\<close> is whatever state of the parent its callback acts on; \<open>trace\<close> records
  the effects performed so far.
\<close>

record 'w world =
  displayFile :: jsval
  parent :: 'w
  trace :: "effect list"

text \<open>
  The props (lines 5 to 12): the optional callback \<open>onFileSelect\<close> and the optional
  \<open>file\<close>, destructured as \<open>propFile\<close>; an absent \<open>file\<close> is \<open>Undefined\<close>.
\<close>

record 'w props =
  onFileSelect :: "(jsval \<Rightarrow> 'w \<Rightarrow> 'w) option"
  propFile :: jsval

text \<open>\<open>useState<File | null>(null)\<close>: the state of a freshly mounted component.\<close>

definition mount :: "'w \<Rightarrow> 'w world" where
  "mount w0 = \<lparr>displayFile = Null, parent = w0, trace = []\<rparr>"

definition setDisplayFile :: "jsval \<Rightarrow> 'w world \<Rightarrow> 'w world" where
  "setDisplayFile v w = w\<lparr>displayFile := v, trace := trace w @ [SetDisplayFile v]\<rparr>"

text \<open>\<open>cb?.(v)\<close>: nothing happens when the callback is absent.\<close>

definition optional_call :: "(jsval \<Rightarrow> 'w \<Rightarrow> 'w) option \<Rightarrow> jsval \<Rightarrow> 'w world \<Rightarrow> 'w world" where
  "optional_call cb v w =
     (case cb of
        None \<Rightarrow> w
      | Some g \<Rightarrow> w\<lparr>parent := g v (parent w), trace := trace w @ [OnFileSelect v]\<rparr>)"

definition console_log :: "string \<Rightarrow> 'w world \<Rightarrow> 'w world" where
  "console_log msg w = w\<lparr>trace := trace w @ [ConsoleLog msg]\<rparr>"

definition stopPropagation :: "mouse_event \<times> 'w world \<Rightarrow> mouse_event \<times> 'w world" where
  "stopPropagation ew =
     (case ew of (e, w) \<Rightarrow>
        (e\<lparr>propagationStopped := True\<rparr>, w\<lparr>trace := trace w @ [StopPropagation]\<rparr>))"

definition preventDefault :: "mouse_event \<times> 'w world \<Rightarrow> mouse_event \<times> 'w world" where
  "preventDefault ew =
     (case ew of (e, w) \<Rightarrow>
        (e\<lparr>defaultPrevented := True\<rparr>, w\<lparr>trace := trace w @ [PreventDefault]\<rparr>))"

subsection \<open>The sync effect (lines 18 to 25)\<close>

definition sync_effect :: "'w props \<Rightarrow> 'w world \<Rightarrow> 'w world" where
  "sync_effect p w =
     (let fileToSet = (if propFile p = Undefined then Null else propFile p)
      in if fileToSet \<noteq> displayFile w then setDisplayFile fileToSet w else w)"

subsection \<open>The drop handler (lines 27 to 34)\<close>

definition onDrop :: "'w props \<Rightarrow> js_file list \<Rightarrow> 'w world \<Rightarrow> 'w world" where
  "onDrop p acceptedFiles w =
     (let droppedFile = js_or (array_get acceptedFiles 0) Null
      in optional_call (onFileSelect p) droppedFile (setDisplayFile droppedFile w))"

subsection \<open>The dropzone configuration (lines 36 to 47)\<close>

definition maxFileSize :: nat where
  "maxFileSize = 20 * 1024 * 1024"

text \<open>The object literal passed to \<open>useDropzone\<close>; \<open>onDrop_opt\<close> is its \<open>onDrop\<close> entry.\<close>

record 'w dropzone_options =
  onDrop_opt :: "js_file list \<Rightarrow> 'w world \<Rightarrow> 'w world"
  multiple :: bool
  accept :: "(string \<times> string list) list"
  maxSize :: nat
  noClick :: bool

definition useDropzone_options :: "'w props \<Rightarrow> 'w world \<Rightarrow> 'w dropzone_options" where
  "useDropzone_options p w =
     \<lparr>onDrop_opt = onDrop p,
      multiple = False,
      accept = [(''application/pdf'', [''.pdf''])],
      maxSize = maxFileSize,
      noClick = truthy (displayFile w)\<rparr>"

subsection \<open>The remove handler (lines 49 to 56)\<close>

definition handleRemoveFile :: "'w props \<Rightarrow> mouse_event \<Rightarrow> 'w world \<Rightarrow> mouse_event \<times> 'w world" where
  "handleRemoveFile p e w =
     (case preventDefault (stopPropagation (e, w)) of (e', w') \<Rightarrow>
        (e', optional_call (onFileSelect p) Null
               (setDisplayFile Null
                  (console_log ''Cross button clicked, stopping propagation and default.'' w'))))"

subsection \<open>What is rendered (lines 58 to 108)\<close>

text \<open>
  The two branches of the conditional render. \<open>SelectedFile\<close> is the
  \<open>uploader-selected-file\<close> block: the file's name, its formatted size and the remove
  button; the props of the dropzone root are not spread on it. \<open>DragArea\<close> is the drop
  area: the element that receives \<open>getRootProps()\<close>, here the options the dropzone was
  configured with, and the label \<open>PDF (...)\<close>.
  \<open>formatSize\<close> comes from \<open>~/lib/utils\<close>, which is not part of the sources: it is a
  parameter.
\<close>

datatype 'w view =
    SelectedFile string string
  | DragArea "'w dropzone_options" string

definition render :: "(nat \<Rightarrow> string) \<Rightarrow> 'w props \<Rightarrow> 'w world \<Rightarrow> 'w view" where
  "render formatSize p w =
     (case displayFile w of
        FileRef f \<Rightarrow> SelectedFile (name f) (formatSize (size_f f))
      | _ \<Rightarrow> DragArea (useDropzone_options p w) (''PDF ('' @ formatSize maxFileSize @ '')''))"

text \<open>The options behind the element that received the dropzone's root props, if one
  was rendered.\<close>

fun dropzone_root :: "'w view \<Rightarrow> 'w dropzone_options option" where
  "dropzone_root (SelectedFile n s) = None"
| "dropzone_root (DragArea opts label) = Some opts"

subsection \<open>Runs of the component\<close>

text \<open>
  What can happen to a mounted component: the sync effect runs (with the props of the
  current render), the dropzone hands a list of accepted files to \<open>onDrop\<close>, or the
  remove button is clicked. The props may differ from one step to the next, since the
  parent may re-render the component with new ones.
  React runs the effect after the first render and after every render in which \<open>file\<close>
  has changed (the dependency list of line 25), and the two handlers can fire only while
  their element is rendered. The runs below allow every step in every state: they
  include all the runs of the component, so what holds of all of them holds of it.
\<close>

datatype 'w action =
    RunEffect "'w props"
  | Drop "'w props" "js_file list"
  | ClickRemove "'w props" mouse_event

fun step :: "'w action \<Rightarrow> 'w world \<Rightarrow> 'w world" where
  "step (RunEffect p) w = sync_effect p w"
| "step (Drop p acceptedFiles) w = onDrop p acceptedFiles w"
| "step (ClickRemove p e) w = snd (handleRemoveFile p e w)"

fun props_of :: "'w action \<Rightarrow> 'w props" where
  "props_of (RunEffect p) = p"
| "props_of (Drop p acceptedFiles) = p"
| "props_of (ClickRemove p e) = p"

fun run :: "'w action list \<Rightarrow> 'w world \<Rightarrow> 'w world" where
  "run [] w = w"
| "run (s # ss) w = run ss (step s w)"

text \<open>The arguments of the callback invocations in a trace, in order.\<close>

fun signals :: "effect list \<Rightarrow> jsval list" where
  "signals [] = []"
| "signals (OnFileSelect v # es) = v # signals es"
| "signals (_ # es) = signals es"

text \<open>The files the state holds.\<close>

definition tracked_files :: "'w world \<Rightarrow> js_file list" where
  "tracked_files w = (case displayFile w of FileRef f \<Rightarrow> [f] | _ \<Rightarrow> [])"

subsection \<open>Sample inputs\<close>

text \<open>A parent that appends every value it is called with to a list.\<close>

definition recorder :: "jsval \<Rightarrow> jsval list \<Rightarrow> jsval list" where
  "recorder v calls = calls @ [v]"

definition with_callback :: "jsval list props" where
  "with_callback = \<lparr>onFileSelect = Some recorder, propFile = Undefined\<rparr>"

definition without_callback :: "jsval list props" where
  "without_callback = \<lparr>onFileSelect = None, propFile = Undefined\<rparr>"

definition resume_pdf :: js_file where
  "resume_pdf = \<lparr>ident = 1, name = ''resume.pdf'', size_f = 2048, type_f = ''application/pdf''\<rparr>"

text \<open>An image of 30 MB: neither a PDF nor below the size threshold.\<close>

definition photo_png :: js_file where
  "photo_png = \<lparr>ident = 2, name = ''photo.png'', size_f = 31457280, type_f = ''image/png''\<rparr>"

definition click :: mouse_event where
  "click = \<lparr>propagationStopped = False, defaultPrevented = False\<rparr>"

text \<open>The state after \<open>resume_pdf\<close> was dropped on a freshly mounted component.\<close>

definition showing_resume :: "jsval list world" where
  "showing_resume = onDrop with_callback [resume_pdf] (mount [])"

section \<open>The route table (lines 112 to 118 of the same source file)\<close>

text \<open>
  An entry is built by \<open>index(file)\<close> or by \<open>route(path, file)\<close>, the two helpers of
  \<open>@react-router/dev/routes\<close> the table uses.
\<close>

datatype route_entry = Index string | Route string string

definition routes :: "route_entry list" where
  "routes =
     [Index ''routes/home.tsx'',
      Route ''/auth'' ''routes/Auth.tsx'',
      Route ''/upload'' ''routes/Upload.tsx'']"

text \<open>The path an entry is mounted at (\<open>None\<close> for the index route) and its view module.\<close>

fun entry_path :: "route_entry \<Rightarrow> string option" where
  "entry_path (Index f) = None"
| "entry_path (Route p f) = Some p"

fun entry_file :: "route_entry \<Rightarrow> string" where
  "entry_file (Index f) = f"
| "entry_file (Route p f) = f"

text \<open>The view module of the first entry mounted at a path.\<close>

fun lookup_route :: "route_entry list \<Rightarrow> string option \<Rightarrow> string option" where
  "lookup_route [] k = None"
| "lookup_route (e # es) k = (if entry_path e = k then Some (entry_file e) else lookup_route es k)"

section \<open>Properties\<close>

subsection \<open>Auxiliary facts\<close>

lemma droppedFile_cons: "js_or (array_get (f # fs) 0) Null = FileRef f"
  by (simp add: js_or_def array_get_def)

lemma droppedFile_nil: "js_or (array_get [] 0) Null = Null"
  by (simp add: js_or_def array_get_def)

lemma droppedFile_defined: "js_or (array_get fs 0) Null \<noteq> Undefined"
  by (cases fs) (simp_all add: droppedFile_cons droppedFile_nil)

lemma onDrop_fields:
  "displayFile (onDrop p fs w) = js_or (array_get fs 0) Null"
  "parent (onDrop p fs w) =
     (case onFileSelect p of
        None \<Rightarrow> parent w
      | Some cb \<Rightarrow> cb (js_or (array_get fs 0) Null) (parent w))"
  "trace (onDrop p fs w) =
     trace w @ SetDisplayFile (js_or (array_get fs 0) Null) #
       (case onFileSelect p of
          None \<Rightarrow> []
        | Some cb \<Rightarrow> [OnFileSelect (js_or (array_get fs 0) Null)])"
  by (cases "onFileSelect p"; simp add: onDrop_def Let_def optional_call_def setDisplayFile_def)+

lemma handleRemoveFile_fields:
  "fst (handleRemoveFile p e w) = e\<lparr>propagationStopped := True, defaultPrevented := True\<rparr>"
  "displayFile (snd (handleRemoveFile p e w)) = Null"
  "parent (snd (handleRemoveFile p e w)) =
     (case onFileSelect p of None \<Rightarrow> parent w | Some cb \<Rightarrow> cb Null (parent w))"
  "trace (snd (handleRemoveFile p e w)) =
     trace w @
     [StopPropagation, PreventDefault,
      ConsoleLog ''Cross button clicked, stopping propagation and default.'',
      SetDisplayFile Null] @
     (case onFileSelect p of None \<Rightarrow> [] | Some cb \<Rightarrow> [OnFileSelect Null])"
  by (cases "onFileSelect p";
      simp add: handleRemoveFile_def stopPropagation_def preventDefault_def console_log_def
        optional_call_def setDisplayFile_def)+

lemma displayFile_sync_effect:
  "displayFile (sync_effect p w) = (if propFile p = Undefined then Null else propFile p)"
  by (simp add: sync_effect_def setDisplayFile_def Let_def)

lemma sync_effect_parent: "parent (sync_effect p w) = parent w"
  by (simp add: sync_effect_def setDisplayFile_def Let_def)

lemma signals_append: "signals (xs @ ys) = signals xs @ signals ys"
  by (induction xs rule: signals.induct) simp_all

lemma sync_effect_signals: "signals (trace (sync_effect p w)) = signals (trace w)"
  by (simp add: sync_effect_def setDisplayFile_def Let_def signals_append)

lemma render_file:
  "displayFile w = FileRef f \<Longrightarrow>
   render formatSize p w = SelectedFile (name f) (formatSize (size_f f))"
  by (simp add: render_def)

lemma render_null:
  "displayFile w = Null \<Longrightarrow>
   render formatSize p w =
     DragArea (useDropzone_options p w) (''PDF ('' @ formatSize maxFileSize @ '')'')"
  by (simp add: render_def)

lemma showing_resume_eq:
  "showing_resume =
     \<lparr>displayFile = FileRef resume_pdf, parent = [FileRef resume_pdf],
      trace = [SetDisplayFile (FileRef resume_pdf), OnFileSelect (FileRef resume_pdf)]\<rparr>"
  by (simp add: showing_resume_def with_callback_def onDrop_def droppedFile_cons Let_def
      setDisplayFile_def optional_call_def mount_def recorder_def)

text \<open>Every step leaves a displayed value that is \<open>null\<close> or a file, and adds at most one
  callback invocation, whose argument is \<open>null\<close> or a file.\<close>

lemma step_displayFile: "displayFile (step a w) \<noteq> Undefined"
  by (cases a)
    (simp_all add: displayFile_sync_effect onDrop_fields droppedFile_defined
      handleRemoveFile_fields)

lemma run_displayFile:
  "displayFile w \<noteq> Undefined \<Longrightarrow> displayFile (run acts w) \<noteq> Undefined"
proof (induction acts arbitrary: w)
  case Nil
  then show ?case by simp
next
  case (Cons a acts)
  have "displayFile (step a w) \<noteq> Undefined" by (rule step_displayFile)
  then show ?case using Cons.IH by simp
qed

lemma step_signals:
  "\<exists>vs. signals (trace (step a w)) = signals (trace w) @ vs \<and> Undefined \<notin> set vs \<and> length vs \<le> 1"
proof (cases a)
  case (RunEffect p)
  then show ?thesis by (simp add: sync_effect_signals)
next
  case (Drop p fs)
  then show ?thesis
    by (cases "onFileSelect p")
      (simp_all add: onDrop_fields signals_append droppedFile_defined [symmetric])
next
  case (ClickRemove p e)
  then show ?thesis
    by (cases "onFileSelect p") (simp_all add: handleRemoveFile_fields signals_append)
qed

lemma run_signals:
  "Undefined \<notin> set (signals (trace w)) \<Longrightarrow> Undefined \<notin> set (signals (trace (run acts w)))"
proof (induction acts arbitrary: w)
  case Nil
  then show ?case by simp
next
  case (Cons a acts)
  obtain vs where "signals (trace (step a w)) = signals (trace w) @ vs" "Undefined \<notin> set vs"
    using step_signals by blast
  with Cons.prems have "Undefined \<notin> set (signals (trace (step a w)))" by simp
  then show ?case using Cons.IH by simp
qed

lemma not_Undefined: "v \<noteq> Undefined \<longleftrightarrow> v = Null \<or> (\<exists>f. v = FileRef f)"
  by (cases v) simp_all

subsection \<open>The handlers\<close>

text \<open>C1: when the dropzone hands an accepted file to \<open>onDrop\<close> (the head of the list it
  passes), the displayed file becomes that file, so the selected-file block with its name
  and formatted size is rendered, and the callback, when there is one, is invoked once
  with that same file; without a callback the parent is left alone.\<close>

theorem onDrop_accepted_file:
  "displayFile (onDrop p (f # fs) w) = FileRef f \<and>
   render formatSize p (onDrop p (f # fs) w) = SelectedFile (name f) (formatSize (size_f f)) \<and>
   (\<forall>cb. onFileSelect p = Some cb \<longrightarrow>
      parent (onDrop p (f # fs) w) = cb (FileRef f) (parent w) \<and>
      trace (onDrop p (f # fs) w) =
        trace w @ [SetDisplayFile (FileRef f), OnFileSelect (FileRef f)]) \<and>
   (onFileSelect p = None \<longrightarrow>
      parent (onDrop p (f # fs) w) = parent w \<and>
      trace (onDrop p (f # fs) w) = trace w @ [SetDisplayFile (FileRef f)])"
  by (simp add: onDrop_fields droppedFile_cons render_file)

theorem onDrop_accepted_file_witness:
  "onFileSelect with_callback = Some recorder \<and>
   displayFile (onDrop with_callback [resume_pdf] (mount [])) = FileRef resume_pdf \<and>
   parent (onDrop with_callback [resume_pdf] (mount [])) = [FileRef resume_pdf] \<and>
   trace (onDrop with_callback [resume_pdf] (mount [])) =
     [SetDisplayFile (FileRef resume_pdf), OnFileSelect (FileRef resume_pdf)] \<and>
   onFileSelect without_callback = None \<and>
   parent (onDrop without_callback [resume_pdf] (mount [])) = [] \<and>
   trace (onDrop without_callback [resume_pdf] (mount [])) =
     [SetDisplayFile (FileRef resume_pdf)]"
  using onDrop_accepted_file [of with_callback resume_pdf "[]" "mount []"]
    onDrop_accepted_file [of without_callback resume_pdf "[]" "mount []"]
  by (simp add: with_callback_def without_callback_def mount_def recorder_def)

text \<open>C2: in a state that displays a file, the remove handler sets the displayed file to
  \<open>null\<close>, so the drop area is rendered again, and invokes the callback, when there is
  one, once with \<open>null\<close>.\<close>

theorem handleRemoveFile_clears:
  assumes "displayFile w = FileRef f"
  shows "displayFile (snd (handleRemoveFile p e w)) = Null \<and>
    render formatSize p (snd (handleRemoveFile p e w)) =
      DragArea (useDropzone_options p (snd (handleRemoveFile p e w)))
        (''PDF ('' @ formatSize maxFileSize @ '')'') \<and>
    parent (snd (handleRemoveFile p e w)) =
      (case onFileSelect p of None \<Rightarrow> parent w | Some cb \<Rightarrow> cb Null (parent w)) \<and>
    signals (trace (snd (handleRemoveFile p e w))) =
      signals (trace w) @ (case onFileSelect p of None \<Rightarrow> [] | Some cb \<Rightarrow> [Null])"
proof -
  let ?w' = "snd (handleRemoveFile p e w)"
  have d: "displayFile ?w' = Null"
    by (rule handleRemoveFile_fields)
  have r: "render formatSize p ?w' =
      DragArea (useDropzone_options p ?w') (''PDF ('' @ formatSize maxFileSize @ '')'')"
    using d by (rule render_null)
  have c: "parent ?w' = (case onFileSelect p of None \<Rightarrow> parent w | Some cb \<Rightarrow> cb Null (parent w))"
    by (rule handleRemoveFile_fields)
  have s: "signals (trace ?w') =
      signals (trace w) @ (case onFileSelect p of None \<Rightarrow> [] | Some cb \<Rightarrow> [Null])"
    by (cases "onFileSelect p") (simp_all add: handleRemoveFile_fields signals_append)
  from d r c s show ?thesis by blast
qed

theorem handleRemoveFile_clears_witness:
  "displayFile showing_resume = FileRef resume_pdf \<and>
   displayFile (snd (handleRemoveFile with_callback click showing_resume)) = Null \<and>
   dropzone_root (render (\<lambda>n. ''2 KB'') with_callback
     (snd (handleRemoveFile with_callback click showing_resume))) \<noteq> None \<and>
   parent (snd (handleRemoveFile with_callback click showing_resume)) =
     [FileRef resume_pdf, Null] \<and>
   signals (trace (snd (handleRemoveFile with_callback click showing_resume))) =
     [FileRef resume_pdf, Null]"
proof -
  have h: "displayFile showing_resume = FileRef resume_pdf"
    by (simp add: showing_resume_eq)
  show ?thesis
    using h handleRemoveFile_clears
        [OF h, where p = with_callback and e = click and formatSize = "\<lambda>n. ''2 KB''"]
    by (simp add: showing_resume_eq with_callback_def recorder_def)
qed

text \<open>C8: on every invocation the remove handler sets both flags of the mouse event, and
  its effects are, in this order: \<open>stopPropagation\<close>, \<open>preventDefault\<close>, the console
  message, the clearing of the state and the optional callback. It has no branch, check
  or error path: the state is cleared whatever it held, and the resulting state does
  not depend on the event.\<close>

theorem handleRemoveFile_guard:
  "fst (handleRemoveFile p e w) = e\<lparr>propagationStopped := True, defaultPrevented := True\<rparr> \<and>
   trace (snd (handleRemoveFile p e w)) =
     trace w @
     [StopPropagation, PreventDefault,
      ConsoleLog ''Cross button clicked, stopping propagation and default.'',
      SetDisplayFile Null] @
     (case onFileSelect p of None \<Rightarrow> [] | Some cb \<Rightarrow> [OnFileSelect Null]) \<and>
   displayFile (snd (handleRemoveFile p e w)) = Null \<and>
   snd (handleRemoveFile p e' w) = snd (handleRemoveFile p e w)"
  by (simp add: handleRemoveFile_fields)

theorem handleRemoveFile_guard_witness:
  "fst (handleRemoveFile with_callback click (mount [])) =
     \<lparr>propagationStopped = True, defaultPrevented = True\<rparr> \<and>
   trace (snd (handleRemoveFile with_callback click (mount []))) =
     [StopPropagation, PreventDefault,
      ConsoleLog ''Cross button clicked, stopping propagation and default.'',
      SetDisplayFile Null, OnFileSelect Null]"
  using handleRemoveFile_guard [of with_callback click "mount []" click]
  by (simp add: with_callback_def click_def mount_def)

text \<open>C9: handed the empty list of accepted files, \<open>onDrop\<close> sets the displayed file to
  \<open>null\<close>, whatever was displayed before, and invokes the callback, when there is one,
  with \<open>null\<close>.\<close>

theorem onDrop_empty_clears:
  "displayFile (onDrop p [] w) = Null \<and>
   parent (onDrop p [] w) =
     (case onFileSelect p of None \<Rightarrow> parent w | Some cb \<Rightarrow> cb Null (parent w)) \<and>
   trace (onDrop p [] w) =
     trace w @ SetDisplayFile Null #
       (case onFileSelect p of None \<Rightarrow> [] | Some cb \<Rightarrow> [OnFileSelect Null])"
  by (simp add: onDrop_fields droppedFile_nil cong: option.case_cong)

theorem onDrop_empty_clears_witness:
  "displayFile showing_resume = FileRef resume_pdf \<and>
   displayFile (onDrop with_callback [] showing_resume) = Null \<and>
   parent (onDrop with_callback [] showing_resume) = [FileRef resume_pdf, Null] \<and>
   trace (onDrop with_callback [] showing_resume) =
     [SetDisplayFile (FileRef resume_pdf), OnFileSelect (FileRef resume_pdf),
      SetDisplayFile Null, OnFileSelect Null]"
  using onDrop_empty_clears [of with_callback showing_resume]
  by (simp add: showing_resume_eq with_callback_def recorder_def)

subsection \<open>The sync effect\<close>

text \<open>C4: after the sync effect has run, the displayed file is the \<open>file\<close> prop, with an
  absent prop read as \<open>null\<close>.\<close>

theorem sync_effect_mirrors_prop:
  "displayFile (sync_effect p w) = (if propFile p = Undefined then Null else propFile p)"
  by (simp add: sync_effect_def setDisplayFile_def Let_def)

theorem sync_effect_mirrors_prop_witness:
  "displayFile (sync_effect with_callback showing_resume) = Null \<and>
   displayFile (sync_effect (with_callback\<lparr>propFile := FileRef photo_png\<rparr>) showing_resume) =
     FileRef photo_png"
  using sync_effect_mirrors_prop [of with_callback showing_resume]
    sync_effect_mirrors_prop [of "with_callback\<lparr>propFile := FileRef photo_png\<rparr>" showing_resume]
  by (simp add: with_callback_def)

subsection \<open>The dropzone configuration\<close>

text \<open>C3: the options handed to the dropzone accept exactly the MIME type
  \<open>application/pdf\<close> with the extension \<open>.pdf\<close> and cap the size at
  \<open>20 * 1024 * 1024 = 20971520\<close> bytes; the handler the dropzone is given is \<open>onDrop\<close>,
  which checks nothing itself: whatever the type and size of the first file it is
  handed, it displays that file, passes it to the callback when there is one, and
  performs exactly these two effects.\<close>

theorem validation_is_dropzone_configuration:
  "accept (useDropzone_options p w) = [(''application/pdf'', [''.pdf''])] \<and>
   maxSize (useDropzone_options p w) = 20 * 1024 * 1024 \<and>
   maxSize (useDropzone_options p w) = 20971520 \<and>
   onDrop_opt (useDropzone_options p w) = onDrop p \<and>
   (\<forall>f fs w'.
      displayFile (onDrop_opt (useDropzone_options p w) (f # fs) w') = FileRef f \<and>
      parent (onDrop_opt (useDropzone_options p w) (f # fs) w') =
        (case onFileSelect p of
           None \<Rightarrow> parent w'
         | Some cb \<Rightarrow> cb (FileRef f) (parent w')) \<and>
      trace (onDrop_opt (useDropzone_options p w) (f # fs) w') =
        trace w' @ SetDisplayFile (FileRef f) #
          (case onFileSelect p of
             None \<Rightarrow> []
           | Some cb \<Rightarrow> [OnFileSelect (FileRef f)]))"
  by (simp add: useDropzone_options_def maxFileSize_def onDrop_fields droppedFile_cons
      cong: option.case_cong)

theorem validation_is_dropzone_configuration_witness:
  "type_f photo_png \<noteq> ''application/pdf'' \<and>
   maxSize (useDropzone_options with_callback (mount [])) < size_f photo_png \<and>
   displayFile (onDrop_opt (useDropzone_options with_callback (mount [])) [photo_png] (mount [])) =
     FileRef photo_png \<and>
   parent (onDrop_opt (useDropzone_options with_callback (mount [])) [photo_png] (mount [])) =
     [FileRef photo_png] \<and>
   trace (onDrop_opt (useDropzone_options with_callback (mount [])) [photo_png] (mount [])) =
     [SetDisplayFile (FileRef photo_png), OnFileSelect (FileRef photo_png)]"
  using validation_is_dropzone_configuration [of with_callback "mount []"]
  by (simp add: photo_png_def useDropzone_options_def maxFileSize_def onDrop_fields
      droppedFile_cons with_callback_def mount_def recorder_def)

text \<open>C10: in every state the \<open>noClick\<close> option is the truthiness of the displayed file,
  that is, it is set exactly when a file is displayed; and while a file is displayed the
  element carrying the dropzone's root props is not rendered at all.\<close>

theorem noClick_iff_file_displayed:
  "noClick (useDropzone_options p w) = truthy (displayFile w) \<and>
   noClick (useDropzone_options p w) = (\<exists>f. displayFile w = FileRef f) \<and>
   ((\<exists>f. displayFile w = FileRef f) \<longrightarrow> dropzone_root (render formatSize p w) = None) \<and>
   (\<forall>opts. dropzone_root (render formatSize p w) = Some opts \<longrightarrow> \<not> noClick opts)"
  by (cases "displayFile w") (auto simp add: useDropzone_options_def render_def)

theorem noClick_iff_file_displayed_witness:
  "displayFile showing_resume = FileRef resume_pdf \<and>
   noClick (useDropzone_options with_callback showing_resume) \<and>
   dropzone_root (render (\<lambda>n. ''2 KB'') with_callback showing_resume) = None \<and>
   dropzone_root (render (\<lambda>n. ''2 KB'') with_callback (mount [])) =
     Some (useDropzone_options with_callback (mount [])) \<and>
   \<not> noClick (useDropzone_options with_callback (mount []))"
  using noClick_iff_file_displayed [of with_callback showing_resume "\<lambda>n. ''2 KB''"]
    noClick_iff_file_displayed [of with_callback "mount []" "\<lambda>n. ''2 KB''"]
  by (simp add: showing_resume_eq render_def mount_def)

subsection \<open>Invariants of the runs\<close>

text \<open>C5: the dropzone is configured with \<open>multiple: false\<close>; \<open>onDrop\<close> looks at the first
  accepted file only; and after any run of a mounted component the state cell holds
  \<open>null\<close> or one file, so at most one file is tracked.\<close>

theorem at_most_one_file_tracked:
  "multiple (useDropzone_options p w) = False \<and>
   onDrop p (f # fs) w = onDrop p [f] w \<and>
   (displayFile (run acts (mount w0)) = Null \<or>
    (\<exists>g. displayFile (run acts (mount w0)) = FileRef g)) \<and>
   length (tracked_files (run acts (mount w0))) \<le> 1"
proof -
  have m: "multiple (useDropzone_options p w) = False"
    by (simp add: useDropzone_options_def)
  have h: "onDrop p (f # fs) w = onDrop p [f] w"
    by (simp add: onDrop_def droppedFile_cons)
  have "displayFile (mount w0) \<noteq> Undefined"
    by (simp add: mount_def)
  then have "displayFile (run acts (mount w0)) \<noteq> Undefined"
    by (rule run_displayFile)
  then have d: "displayFile (run acts (mount w0)) = Null \<or>
      (\<exists>g. displayFile (run acts (mount w0)) = FileRef g)"
    by (simp add: not_Undefined)
  have t: "length (tracked_files (run acts (mount w0))) \<le> 1"
    by (simp add: tracked_files_def split: jsval.split)
  from m h d t show ?thesis by blast
qed

theorem at_most_one_file_tracked_witness:
  "onDrop with_callback [resume_pdf, photo_png] (mount []) = showing_resume \<and>
   tracked_files (run [Drop with_callback [resume_pdf, photo_png]] (mount [])) = [resume_pdf] \<and>
   tracked_files
     (run [Drop with_callback [resume_pdf, photo_png], ClickRemove with_callback click]
        (mount [])) = []"
  using at_most_one_file_tracked
    [of with_callback "mount []" resume_pdf "[photo_png]" "[Drop with_callback [resume_pdf, photo_png]]" "[]"]
  by (simp add: showing_resume_def tracked_files_def handleRemoveFile_fields onDrop_fields
      droppedFile_cons)

text \<open>C6: after any run of a mounted component, every value the callback was invoked
  with is \<open>null\<close> or a file; and a step acts on the parent in no other way than by at
  most one such invocation of the callback of its props.\<close>

theorem callback_signals_file_or_null:
  "(\<forall>v \<in> set (signals (trace (run acts (mount w0)))). v = Null \<or> (\<exists>f. v = FileRef f)) \<and>
   (parent (step a w) = parent w \<or>
    (\<exists>cb v. onFileSelect (props_of a) = Some cb \<and> (v = Null \<or> (\<exists>f. v = FileRef f)) \<and>
       parent (step a w) = cb v (parent w)))"
proof -
  have "Undefined \<notin> set (signals (trace (mount w0)))"
    by (simp add: mount_def)
  then have "Undefined \<notin> set (signals (trace (run acts (mount w0))))"
    by (rule run_signals)
  then have inv: "\<forall>v \<in> set (signals (trace (run acts (mount w0)))). v = Null \<or> (\<exists>f. v = FileRef f)"
    by (metis not_Undefined)
  have one: "parent (step a w) = parent w \<or>
    (\<exists>cb v. onFileSelect (props_of a) = Some cb \<and> (v = Null \<or> (\<exists>f. v = FileRef f)) \<and>
       parent (step a w) = cb v (parent w))"
  proof (cases a)
    case (RunEffect p)
    then show ?thesis by (simp add: sync_effect_parent)
  next
    case (Drop p fs)
    show ?thesis
    proof (cases "onFileSelect p")
      case None
      with Drop show ?thesis by (simp add: onDrop_fields)
    next
      case (Some cb)
      have "js_or (array_get fs 0) Null = Null \<or> (\<exists>f. js_or (array_get fs 0) Null = FileRef f)"
        using droppedFile_defined [of fs] by (simp add: not_Undefined)
      with Drop Some show ?thesis by (auto simp add: onDrop_fields)
    qed
  next
    case (ClickRemove p e)
    then show ?thesis
      by (cases "onFileSelect p") (auto simp add: handleRemoveFile_fields)
  qed
  from inv one show ?thesis by blast
qed

theorem callback_signals_file_or_null_witness:
  "signals (trace (run [Drop with_callback [resume_pdf], Drop with_callback [],
      ClickRemove with_callback click, RunEffect with_callback] (mount []))) =
     [FileRef resume_pdf, Null, Null] \<and>
   parent (run [Drop with_callback [resume_pdf], Drop with_callback [],
      ClickRemove with_callback click, RunEffect with_callback] (mount [])) =
     [FileRef resume_pdf, Null, Null]"
  using callback_signals_file_or_null
    [of "[Drop with_callback [resume_pdf], Drop with_callback [],
      ClickRemove with_callback click, RunEffect with_callback]" "[]"
      "Drop with_callback []" "mount []"]
  by (simp add: onDrop_fields droppedFile_cons droppedFile_nil handleRemoveFile_fields
      sync_effect_signals sync_effect_parent signals_append with_callback_def mount_def
      recorder_def)

section \<open>Properties of the route table\<close>

text \<open>C7: the route table has exactly three entries, mounted at three different paths: the
  index path leads to \<open>routes/home.tsx\<close>, \<open>/auth\<close> to \<open>routes/Auth.tsx\<close> and \<open>/upload\<close> to
  \<open>routes/Upload.tsx\<close>; no other path leads anywhere.\<close>

theorem route_table_three_entries:
  "length routes = 3 \<and>
   distinct (map entry_path routes) \<and>
   lookup_route routes k =
     (if k = None then Some ''routes/home.tsx''
      else if k = Some ''/auth'' then Some ''routes/Auth.tsx''
      else if k = Some ''/upload'' then Some ''routes/Upload.tsx''
      else None)"
  by (auto simp add: routes_def)

theorem route_table_three_entries_witness:
  "lookup_route routes None = Some ''routes/home.tsx'' \<and>
   lookup_route routes (Some ''/auth'') = Some ''routes/Auth.tsx'' \<and>
   lookup_route routes (Some ''/upload'') = Some ''routes/Upload.tsx'' \<and>
   lookup_route routes (Some ''/'') = None"
  using route_table_three_entries [of None] route_table_three_entries [of "Some ''/auth''"]
    route_table_three_entries [of "Some ''/upload''"] route_table_three_entries [of "Some ''/''"]
  by simp

end
